theory Spec2Isabelle
  imports Complex_Main
begin

section \<open>The board: pins, levels and the I/O calls of the sketch\<close>

text \<open>
  The sketch \<^verbatim>\<open>project2.ino\<close> talks to three devices: the analog input \<^verbatim>\<open>A0\<close>, the
  digital output pin 8 and the serial port. The board is a record of what those devices
  hold, together with the one global variable of the sketch and the list of I/O calls
  made so far, oldest first. The list exists only so that the order of the calls can be
  stated; every call appends exactly one entry.

  \<^verbatim>\<open>A0\<close> is a macro of the board's header, so its number stays symbolic. The C type
  \<^verbatim>\<open>int\<close> of \<^verbatim>\<open>sensorValue\<close> is modelled by \<open>int\<close>: the sketch only stores the
  reading, prints it, compares it and converts it to floating point, so no integer
  operation can wrap, and a statement over every \<open>int\<close> covers every width of the C type.
\<close>

datatype level = LOW | HIGH

datatype mode = INPUT | OUTPUT

datatype pin = A0 | Digital nat

datatype event =
    SerialBegin nat
  | PinMode pin mode
  | DigitalWrite pin level
  | AnalogRead pin int
  | SerialWrite string
  | Delay nat

record board =
  sensorValue :: int
  baud :: "nat option"
  pin_mode :: "pin \<Rightarrow> mode option"
  pin_out :: "pin \<Rightarrow> level option"
  serial_out :: string
  clock :: nat
  trace :: "event list"

definition MQ3_PIN :: pin where
  "MQ3_PIN = A0"

definition RELAY_PIN :: pin where
  "RELAY_PIN = Digital 8"

text \<open>The board at power-on: \<^verbatim>\<open>int sensorValue = 0;\<close>, nothing configured or written.\<close>

definition power_on :: board where
  "power_on = \<lparr>sensorValue = 0, baud = None, pin_mode = (\<lambda>p. None),
     pin_out = (\<lambda>p. None), serial_out = [], clock = 0, trace = []\<rparr>"

subsection \<open>Decimal output of \<^verbatim>\<open>Print::println(int)\<close>\<close>

text \<open>
  \<^verbatim>\<open>Serial.println(sensorValue)\<close> writes the value in base 10, a minus sign first when it
  is negative, then carriage return and line feed. The digits are produced from the least
  significant one by repeated division, as the core's \<^verbatim>\<open>printNumber\<close> does.
\<close>

definition CRLF :: string where
  "CRLF = [CHR 0x0D, CHR 0x0A]"

definition digit_char :: "nat \<Rightarrow> char" where
  "digit_char d = ''0123456789'' ! d"

fun printNumber :: "nat \<Rightarrow> string" where
  "printNumber n =
     (if n < 10 then [digit_char n] else printNumber (n div 10) @ [digit_char (n mod 10)])"

declare printNumber.simps [simp del]

definition print_int :: "int \<Rightarrow> string" where
  "print_int v = (if v < 0 then CHR ''-'' # printNumber (nat (- v)) else printNumber (nat v))"

subsection \<open>The calls\<close>

definition Serial_begin :: "nat \<Rightarrow> board \<Rightarrow> board" where
  "Serial_begin b s = s\<lparr>baud := Some b, trace := trace s @ [SerialBegin b]\<rparr>"

definition pinMode :: "pin \<Rightarrow> mode \<Rightarrow> board \<Rightarrow> board" where
  "pinMode p m s = s\<lparr>pin_mode := (pin_mode s)(p := Some m), trace := trace s @ [PinMode p m]\<rparr>"

definition digitalWrite :: "pin \<Rightarrow> level \<Rightarrow> board \<Rightarrow> board" where
  "digitalWrite p l s =
     s\<lparr>pin_out := (pin_out s)(p := Some l), trace := trace s @ [DigitalWrite p l]\<rparr>"

definition delay :: "nat \<Rightarrow> board \<Rightarrow> board" where
  "delay ms s = s\<lparr>clock := clock s + ms, trace := trace s @ [Delay ms]\<rparr>"

definition Serial_print :: "string \<Rightarrow> board \<Rightarrow> board" where
  "Serial_print txt s =
     s\<lparr>serial_out := serial_out s @ txt, trace := trace s @ [SerialWrite txt]\<rparr>"

definition Serial_println :: "string \<Rightarrow> board \<Rightarrow> board" where
  "Serial_println txt s = Serial_print (txt @ CRLF) s"

definition Serial_println_int :: "int \<Rightarrow> board \<Rightarrow> board" where
  "Serial_println_int v s = Serial_println (print_int v) s"

text \<open>
  \<^verbatim>\<open>analogRead\<close> returns what the converter measures; the measured value \<open>r\<close> is an
  input of the model, and the call is recorded with it.
\<close>

definition analogRead :: "pin \<Rightarrow> int \<Rightarrow> board \<Rightarrow> int \<times> board" where
  "analogRead p r s = (r, s\<lparr>trace := trace s @ [AnalogRead p r]\<rparr>)"

section \<open>The sketch\<close>

text \<open>
  \<^verbatim>\<open>void setup()\<close>, lines 7 to 13. The name carries a suffix because the plain word is
  reserved in Isabelle.
\<close>

definition setup_board :: "board \<Rightarrow> board" where
  "setup_board s0 =
     (let s1 = Serial_begin 9600 s0;
          s2 = pinMode RELAY_PIN OUTPUT s1;
          s3 = digitalWrite RELAY_PIN HIGH s2;
          s4 = delay 2000 s3
      in Serial_println ''Alcohol Detection System Initialized'' s4)"

text \<open>
  \<^verbatim>\<open>void loop()\<close>, lines 15 to 34. The argument \<open>r\<close> is what \<^verbatim>\<open>analogRead(MQ3_PIN)\<close>
  returns in this pass. The argument \<open>flt\<close> stands for the board's floating-point
  evaluation of \<^verbatim>\<open>(sensorValue / 1023.0) * 5.0\<close>: the format and rounding of \<^verbatim>\<open>float\<close>
  are the compiler's, so the expression is taken as a function of the integer it reads.
\<close>

definition loop :: "(int \<Rightarrow> 'f) \<Rightarrow> int \<Rightarrow> board \<Rightarrow> board" where
  "loop flt r s0 =
     (let (v, s1) = analogRead MQ3_PIN r s0;
          s2 = s1\<lparr>sensorValue := v\<rparr>;
          voltage = flt (sensorValue s2);
          s3 = Serial_print ''MQ3 Value: '' s2;
          s4 = Serial_println_int (sensorValue s3) s3;
          s5 = (if sensorValue s4 > 400
                then Serial_println ''ALCOHOL DETECTED'' (digitalWrite RELAY_PIN LOW s4)
                else Serial_println ''SAFE - No Alcohol'' (digitalWrite RELAY_PIN HIGH s4))
      in delay 1000 s5)"

text \<open>
  The exact value of the voltage expression, as a rational number; one possible reading
  of \<open>flt\<close>, used where a concrete run is evaluated.
\<close>

definition voltage_exact :: "int \<Rightarrow> rat" where
  "voltage_exact v = (of_int v / 1023) * 5"

text \<open>
  The core's \<^verbatim>\<open>main\<close> calls \<^verbatim>\<open>setup()\<close> once and then \<^verbatim>\<open>loop()\<close> forever. A run is
  cut after finitely many passes, one per reading of the list.
\<close>

fun run_loop :: "(int \<Rightarrow> 'f) \<Rightarrow> int list \<Rightarrow> board \<Rightarrow> board" where
  "run_loop flt [] s = s"
| "run_loop flt (r # rs) s = run_loop flt rs (loop flt r s)"

definition sketch :: "(int \<Rightarrow> 'f) \<Rightarrow> int list \<Rightarrow> board" where
  "sketch flt rs = run_loop flt rs (setup_board power_on)"

section \<open>What one pass of the loop adds\<close>

text \<open>The calls made, and the text sent to the serial port, during one pass.\<close>

definition pass_events :: "(int \<Rightarrow> 'f) \<Rightarrow> int \<Rightarrow> board \<Rightarrow> event list" where
  "pass_events flt r s = drop (length (trace s)) (trace (loop flt r s))"

definition pass_text :: "(int \<Rightarrow> 'f) \<Rightarrow> int \<Rightarrow> board \<Rightarrow> string" where
  "pass_text flt r s = drop (length (serial_out s)) (serial_out (loop flt r s))"

text \<open>
  The serial text cut into lines at each carriage return followed by a line feed, the
  terminator that \<^verbatim>\<open>println\<close> writes. Characters after the last terminator form an
  unfinished line, which is kept.
\<close>

fun lines_from :: "string \<Rightarrow> string \<Rightarrow> string list" where
  "lines_from acc [] = (if acc = [] then [] else [rev acc])"
| "lines_from acc [c] = [rev (c # acc)]"
| "lines_from acc (c # d # cs) =
     (if c = CHR 0x0D \<and> d = CHR 0x0A then rev acc # lines_from [] cs
      else lines_from (c # acc) (d # cs))"

definition serial_lines :: "string \<Rightarrow> string list" where
  "serial_lines txt = lines_from [] txt"

text \<open>The levels written to a pin, in the order of the writes.\<close>

fun levels_written :: "pin \<Rightarrow> event list \<Rightarrow> level list" where
  "levels_written p [] = []"
| "levels_written p (DigitalWrite q l # es) =
     (if q = p then l # levels_written p es else levels_written p es)"
| "levels_written p (e # es) = levels_written p es"

section \<open>The components as the specification names them\<close>

text \<open>
  The sketch has no functions of these names: the threshold test, the pin write and the
  two prints stand inline in \<^verbatim>\<open>loop()\<close>. The following definitions follow the words of
  the specification (sections 4.2 to 4.4), and the theorems compare \<open>loop\<close> with them.
\<close>

datatype decision = ALARM | SAFE

definition decide :: "int \<Rightarrow> decision" where
  "decide reading = (if reading > 400 then ALARM else SAFE)"

definition actuate_level :: "decision \<Rightarrow> level" where
  "actuate_level d = (case d of ALARM \<Rightarrow> LOW | SAFE \<Rightarrow> HIGH)"

definition actuate :: "decision \<Rightarrow> board \<Rightarrow> board" where
  "actuate d s = digitalWrite RELAY_PIN (actuate_level d) s"

definition classification :: "decision \<Rightarrow> string" where
  "classification d = (case d of ALARM \<Rightarrow> ''ALCOHOL DETECTED'' | SAFE \<Rightarrow> ''SAFE - No Alcohol'')"

section \<open>Further notions used by the statements\<close>

text \<open>
  The loop with the statement of line 17 deleted and every other line kept: the
  loop that the original is compared with, to state that the voltage has no influence.
\<close>

definition loop_without_voltage :: "int \<Rightarrow> board \<Rightarrow> board" where
  "loop_without_voltage r s0 =
     (let (v, s1) = analogRead MQ3_PIN r s0;
          s2 = s1\<lparr>sensorValue := v\<rparr>;
          s3 = Serial_print ''MQ3 Value: '' s2;
          s4 = Serial_println_int (sensorValue s3) s3;
          s5 = (if sensorValue s4 > 400
                then Serial_println ''ALCOHOL DETECTED'' (digitalWrite RELAY_PIN LOW s4)
                else Serial_println ''SAFE - No Alcohol'' (digitalWrite RELAY_PIN HIGH s4))
      in delay 1000 s5)"

text \<open>The calls and the serial text added by several passes.\<close>

definition run_events :: "(int \<Rightarrow> 'f) \<Rightarrow> int list \<Rightarrow> board \<Rightarrow> event list" where
  "run_events flt rs s = drop (length (trace s)) (trace (run_loop flt rs s))"

definition run_text :: "(int \<Rightarrow> 'f) \<Rightarrow> int list \<Rightarrow> board \<Rightarrow> string" where
  "run_text flt rs s = drop (length (serial_out s)) (serial_out (run_loop flt rs s))"

text \<open>
  The level that the relay pin holds when each pass of a run has returned, one entry per
  pass, read from the pin and not from the record of calls.
\<close>

fun pin_after_each_pass :: "(int \<Rightarrow> 'f) \<Rightarrow> int list \<Rightarrow> board \<Rightarrow> level option list" where
  "pin_after_each_pass flt [] s = []"
| "pin_after_each_pass flt (r # rs) s =
     pin_out (loop flt r s) RELAY_PIN # pin_after_each_pass flt rs (loop flt r s)"

text \<open>
  A pass in which the decision is given instead of computed: the reading is sampled and
  printed as in \<open>loop\<close>, then the specification's actuation and classification for the
  decision \<open>d\<close> follow, then the delay. A run of such passes takes one decision and one
  reading per pass. Comparing a run of \<open>loop\<close> with it says which decision each pass of
  the code took.
\<close>

definition pass_decided :: "decision \<Rightarrow> int \<Rightarrow> board \<Rightarrow> board" where
  "pass_decided d r s =
     delay 1000 (Serial_println (classification d) (actuate d
       (Serial_println_int r (Serial_print ''MQ3 Value: ''
         ((snd (analogRead MQ3_PIN r s))\<lparr>sensorValue := r\<rparr>)))))"

fun run_decided :: "(decision \<times> int) list \<Rightarrow> board \<Rightarrow> board" where
  "run_decided [] s = s"
| "run_decided ((d, r) # xs) s = run_decided xs (pass_decided d r s)"

definition is_classification :: "string \<Rightarrow> bool" where
  "is_classification l = (l = ''ALCOHOL DETECTED'' \<or> l = ''SAFE - No Alcohol'')"

text \<open>
  The stage of an iteration to which a call belongs, in the vocabulary of the
  specification: reading the converter samples, writing a pin actuates, writing to the
  serial port reports, a delay waits. Deciding makes no call.
\<close>

datatype stage = Configure | Sample | Actuate | Report | Wait

fun stage_of :: "event \<Rightarrow> stage" where
  "stage_of (SerialBegin b) = Configure"
| "stage_of (PinMode p m) = Configure"
| "stage_of (DigitalWrite p l) = Actuate"
| "stage_of (AnalogRead p r) = Sample"
| "stage_of (SerialWrite txt) = Report"
| "stage_of (Delay ms) = Wait"

text \<open>The stages of a list of calls, each maximal block of equal stages counted once.\<close>

definition stages :: "event list \<Rightarrow> stage list" where
  "stages es = remdups_adj (map stage_of es)"

text \<open>
  Reading a decimal numeral back, the inverse of \<open>print_int\<close>; it states what
  ``the line contains the reading'' means.
\<close>

definition digit_val :: "char \<Rightarrow> nat" where
  "digit_val c = of_char c - 48"

definition read_nat :: "string \<Rightarrow> nat" where
  "read_nat ds = foldl (\<lambda>a c. 10 * a + digit_val c) 0 ds"

definition read_int :: "string \<Rightarrow> int" where
  "read_int txt =
     (case txt of [] \<Rightarrow> 0
      | c # cs \<Rightarrow> if c = CHR ''-'' then - int (read_nat cs) else int (read_nat txt))"

section \<open>Facts about the calls, the printing and the line splitting\<close>

lemmas call_defs = analogRead_def Serial_print_def Serial_println_def Serial_println_int_def
  digitalWrite_def delay_def Serial_begin_def pinMode_def

text \<open>The whole effect of one pass, field by field.\<close>

lemma loop_result:
  "loop flt r s =
     s\<lparr>sensorValue := r,
       pin_out := (pin_out s)(RELAY_PIN := Some (actuate_level (decide r))),
       serial_out := serial_out s @ ''MQ3 Value: '' @ print_int r @ CRLF
                       @ classification (decide r) @ CRLF,
       clock := clock s + 1000,
       trace := trace s @ [AnalogRead MQ3_PIN r, SerialWrite ''MQ3 Value: '',
                  SerialWrite (print_int r @ CRLF),
                  DigitalWrite RELAY_PIN (actuate_level (decide r)),
                  SerialWrite (classification (decide r) @ CRLF), Delay 1000]\<rparr>"
  by (simp add: loop_def call_defs decide_def actuate_level_def classification_def)

lemma pass_events_eq:
  "pass_events flt r s =
     [AnalogRead MQ3_PIN r, SerialWrite ''MQ3 Value: '', SerialWrite (print_int r @ CRLF),
      DigitalWrite RELAY_PIN (actuate_level (decide r)),
      SerialWrite (classification (decide r) @ CRLF), Delay 1000]"
  by (simp add: pass_events_def loop_result)

lemma pass_text_eq:
  "pass_text flt r s =
     ''MQ3 Value: '' @ print_int r @ CRLF @ classification (decide r) @ CRLF"
  by (simp add: pass_text_def loop_result)

lemma setup_result:
  "setup_board s =
     s\<lparr>baud := Some 9600,
       pin_mode := (pin_mode s)(RELAY_PIN := Some OUTPUT),
       pin_out := (pin_out s)(RELAY_PIN := Some HIGH),
       serial_out := serial_out s @ ''Alcohol Detection System Initialized'' @ CRLF,
       clock := clock s + 2000,
       trace := trace s @ [SerialBegin 9600, PinMode RELAY_PIN OUTPUT,
                  DigitalWrite RELAY_PIN HIGH, Delay 2000,
                  SerialWrite (''Alcohol Detection System Initialized'' @ CRLF)]\<rparr>"
  by (simp add: setup_board_def call_defs)

text \<open>Several passes append their calls and their text, whatever the board held before.\<close>

lemma trace_run_loop:
  "trace (run_loop flt rs s) = trace s @ concat (map (\<lambda>r. pass_events flt r power_on) rs)"
  by (induction rs arbitrary: s) (simp_all add: loop_result pass_events_eq)

lemma serial_out_run_loop:
  "serial_out (run_loop flt rs s) =
     serial_out s @ concat (map (\<lambda>r. pass_text flt r power_on) rs)"
  by (induction rs arbitrary: s) (simp_all add: loop_result pass_text_eq)

lemma run_events_eq:
  "run_events flt rs s = concat (map (\<lambda>r. pass_events flt r power_on) rs)"
  by (simp add: run_events_def trace_run_loop)

lemma run_text_eq:
  "run_text flt rs s = concat (map (\<lambda>r. pass_text flt r power_on) rs)"
  by (simp add: run_text_def serial_out_run_loop)

text \<open>A pass of the code is the decided pass for the decision of its reading, and no other.\<close>

lemma loop_pass_decided: "loop flt r s = pass_decided (decide r) r s"
  by (simp add: loop_result pass_decided_def actuate_def call_defs)

lemma pass_decided_pin: "pin_out (pass_decided d r s) RELAY_PIN = Some (actuate_level d)"
  by (simp add: pass_decided_def actuate_def call_defs)

lemma pass_decided_distinct: "pass_decided ALARM r s \<noteq> pass_decided SAFE r s"
proof
  assume "pass_decided ALARM r s = pass_decided SAFE r s"
  then have "pin_out (pass_decided ALARM r s) RELAY_PIN =
      pin_out (pass_decided SAFE r s) RELAY_PIN"
    by simp
  then show False
    by (simp add: pass_decided_pin actuate_level_def)
qed

subsection \<open>Printed numbers\<close>

lemma digit_char_in: "d < 10 \<Longrightarrow> digit_char d \<in> set ''0123456789''"
  unfolding digit_char_def by (rule nth_mem) simp

lemma printNumber_digits: "set (printNumber n) \<subseteq> set ''0123456789''"
proof (induction n rule: printNumber.induct)
  case (1 n)
  show ?case
  proof (cases "n < 10")
    case True
    then show ?thesis using digit_char_in [of n] by (subst printNumber.simps) simp
  next
    case False
    have "n mod 10 < 10" by simp
    with False 1 show ?thesis
      using digit_char_in [of "n mod 10"] by (subst printNumber.simps) simp
  qed
qed

lemma printNumber_not_Nil: "printNumber n \<noteq> []"
  by (subst printNumber.simps) simp

lemma print_int_no_CR: "CHR 0x0D \<notin> set (print_int v)"
  using printNumber_digits [of "nat v"] printNumber_digits [of "nat (- v)"]
  by (auto simp add: print_int_def)

lemma digit_val_digit_char: "d < 10 \<Longrightarrow> digit_val (digit_char d) = d"
proof -
  assume "d < 10"
  then have "d \<in> {0, 1, 2, 3, 4, 5, 6, 7, 8, 9}" by auto
  then show ?thesis by (auto simp add: digit_val_def digit_char_def)
qed

lemma read_nat_snoc: "read_nat (ds @ [c]) = 10 * read_nat ds + digit_val c"
  by (simp add: read_nat_def)

lemma read_nat_printNumber: "read_nat (printNumber n) = n"
proof (induction n rule: printNumber.induct)
  case (1 n)
  show ?case
  proof (cases "n < 10")
    case True
    then show ?thesis
      by (subst printNumber.simps) (simp add: read_nat_def digit_val_digit_char)
  next
    case False
    then have "read_nat (printNumber (n div 10)) = n div 10" using 1 by simp
    with False show ?thesis
      by (subst printNumber.simps) (simp add: read_nat_snoc digit_val_digit_char)
  qed
qed

text \<open>What is printed reads back as the number that was printed.\<close>

lemma read_int_print_int: "read_int (print_int v) = v"
proof (cases "v < 0")
  case True
  then show ?thesis by (simp add: read_int_def print_int_def read_nat_printNumber)
next
  case False
  obtain c cs where p: "printNumber (nat v) = c # cs"
    using printNumber_not_Nil [of "nat v"] by (cases "printNumber (nat v)") auto
  have "c \<in> set ''0123456789''" using printNumber_digits [of "nat v"] p by auto
  then have "c \<noteq> CHR ''-''" by auto
  with False p show ?thesis
    using read_nat_printNumber [of "nat v"] by (simp add: read_int_def print_int_def)
qed

lemma print_int_scenario:
  "print_int 100 = ''100''" "print_int 500 = ''500''" "print_int 400 = ''400''"
  "print_int 1023 = ''1023''" "print_int 0 = ''0''"
  by (simp_all add: print_int_def printNumber.simps digit_char_def)

subsection \<open>Lines\<close>

lemma lines_from_line:
  "CHR 0x0D \<notin> set xs \<Longrightarrow>
     lines_from acc (xs @ CHR 0x0D # CHR 0x0A # rest) = (rev acc @ xs) # lines_from [] rest"
proof (induction xs arbitrary: acc)
  case Nil
  show ?case by simp
next
  case (Cons x xs)
  from Cons.prems have "x \<noteq> CHR 0x0D" and "CHR 0x0D \<notin> set xs" by auto
  then show ?case using Cons.IH [of "x # acc"] by (cases xs) simp_all
qed

lemma serial_lines_pass:
  "serial_lines (pass_text flt r s) = [''MQ3 Value: '' @ print_int r, classification (decide r)]"
proof -
  have a: "CHR 0x0D \<notin> set (''MQ3 Value: '' @ print_int r)"
    using print_int_no_CR [of r] by simp
  have b: "CHR 0x0D \<notin> set (classification (decide r))"
    by (simp add: classification_def split: decision.split)
  have "lines_from [] ((''MQ3 Value: '' @ print_int r) @ CHR 0x0D # CHR 0x0A #
           (classification (decide r) @ CHR 0x0D # CHR 0x0A # [])) =
        ([] @ (''MQ3 Value: '' @ print_int r)) # [] @ classification (decide r) # lines_from [] []"
    by (simp only: lines_from_line [OF a] lines_from_line [OF b] rev.simps append_Nil)
  then show ?thesis
    by (simp add: serial_lines_def pass_text_eq CRLF_def)
qed

lemma scenario_lines:
  "serial_lines (run_text flt [100, 500, 400, 1023, 0] s) =
     [''MQ3 Value: 100'', ''SAFE - No Alcohol'', ''MQ3 Value: 500'', ''ALCOHOL DETECTED'',
      ''MQ3 Value: 400'', ''SAFE - No Alcohol'', ''MQ3 Value: 1023'', ''ALCOHOL DETECTED'',
      ''MQ3 Value: 0'', ''SAFE - No Alcohol'']"
  by (simp add: run_text_eq pass_text_eq print_int_scenario decide_def classification_def
        serial_lines_def CRLF_def)

section \<open>The properties of the specification\<close>

text \<open>
  C1. The threshold is a strict greater-than at 400. For every reading \<open>r\<close>: above 400 the
  decision is ALARM, the pass writes LOW (active) to the relay pin once and leaves it LOW;
  at 400 or below the decision is SAFE, the pass writes HIGH (inactive) once and leaves the
  pin HIGH. The branch of \<open>loop\<close> is the specification's decide, actuate and report of
  the classification, composed in that order after the reading has been printed. At the
  boundary, 400 is SAFE and 401 is ALARM.
\<close>

theorem threshold_strictly_above_400:
  "(400 < r \<longrightarrow> decide r = ALARM
       \<and> levels_written RELAY_PIN (pass_events flt r s) = [LOW]
       \<and> pin_out (loop flt r s) RELAY_PIN = Some LOW)
   \<and> (r \<le> 400 \<longrightarrow> decide r = SAFE
       \<and> levels_written RELAY_PIN (pass_events flt r s) = [HIGH]
       \<and> pin_out (loop flt r s) RELAY_PIN = Some HIGH)
   \<and> loop flt r s =
       delay 1000 (Serial_println (classification (decide r)) (actuate (decide r)
         (Serial_println_int r (Serial_print ''MQ3 Value: ''
           ((snd (analogRead MQ3_PIN r s))\<lparr>sensorValue := r\<rparr>)))))
   \<and> decide 400 = SAFE \<and> decide 401 = ALARM"
proof -
  have writes: "levels_written RELAY_PIN (pass_events flt r s) = [actuate_level (decide r)]"
    by (simp add: pass_events_eq)
  have left: "pin_out (loop flt r s) RELAY_PIN = Some (actuate_level (decide r))"
    by (simp add: loop_result)
  have above: "400 < r \<longrightarrow> decide r = ALARM
       \<and> levels_written RELAY_PIN (pass_events flt r s) = [LOW]
       \<and> pin_out (loop flt r s) RELAY_PIN = Some LOW"
    using writes left by (simp add: decide_def actuate_level_def)
  have below: "r \<le> 400 \<longrightarrow> decide r = SAFE
       \<and> levels_written RELAY_PIN (pass_events flt r s) = [HIGH]
       \<and> pin_out (loop flt r s) RELAY_PIN = Some HIGH"
    using writes left by (simp add: decide_def actuate_level_def)
  have comp: "loop flt r s =
       delay 1000 (Serial_println (classification (decide r)) (actuate (decide r)
         (Serial_println_int r (Serial_print ''MQ3 Value: ''
           ((snd (analogRead MQ3_PIN r s))\<lparr>sensorValue := r\<rparr>)))))"
    by (simp add: loop_result actuate_def call_defs)
  have edge: "decide 400 = SAFE \<and> decide 401 = ALARM"
    by (simp add: decide_def)
  show ?thesis
    by (rule conjI [OF above conjI [OF below conjI [OF comp edge]]])
qed

theorem threshold_strictly_above_400_witness:
  "(400 :: int) < 401 \<and> decide 401 = ALARM
     \<and> levels_written RELAY_PIN (pass_events voltage_exact 401 power_on) = [LOW]
     \<and> pin_out (loop voltage_exact 401 power_on) RELAY_PIN = Some LOW
   \<and> (400 :: int) \<le> 400 \<and> decide 400 = SAFE
     \<and> levels_written RELAY_PIN (pass_events voltage_exact 400 power_on) = [HIGH]
     \<and> pin_out (loop voltage_exact 400 power_on) RELAY_PIN = Some HIGH"
proof -
  have h1: "(400 :: int) < 401" and h2: "(400 :: int) \<le> 400"
    by simp_all
  show ?thesis
    using h1 h2
      threshold_strictly_above_400 [where r = 401 and flt = voltage_exact and s = power_on]
      threshold_strictly_above_400 [where r = 400 and flt = voltage_exact and s = power_on]
    by blast
qed

text \<open>
  C2. Five passes of the loop on the readings 100, 500, 400, 1023, 0, started from any
  board. The decisions are SAFE, ALARM, SAFE, ALARM, SAFE: the run of the code is the run
  in which the passes are given these decisions, and a pass given the other decision is a
  different board. The relay pin holds HIGH, LOW, HIGH, LOW, HIGH after the first to the
  fifth pass, and these are also the levels recorded as written, one write per pass; the
  pin is HIGH at the end. The serial port receives ten lines, a reading line before each
  classification line, and the classification lines are ``SAFE - No Alcohol'',
  ``ALCOHOL DETECTED'', ``SAFE - No Alcohol'', ``ALCOHOL DETECTED'', ``SAFE - No Alcohol''
  in that order.
\<close>

theorem scenario_five_readings:
  "map decide [100, 500, 400, 1023, 0] = [SAFE, ALARM, SAFE, ALARM, SAFE]
   \<and> levels_written RELAY_PIN (run_events flt [100, 500, 400, 1023, 0] s) =
       [HIGH, LOW, HIGH, LOW, HIGH]
   \<and> serial_lines (run_text flt [100, 500, 400, 1023, 0] s) =
       [''MQ3 Value: 100'', ''SAFE - No Alcohol'', ''MQ3 Value: 500'', ''ALCOHOL DETECTED'',
        ''MQ3 Value: 400'', ''SAFE - No Alcohol'', ''MQ3 Value: 1023'', ''ALCOHOL DETECTED'',
        ''MQ3 Value: 0'', ''SAFE - No Alcohol'']
   \<and> filter is_classification (serial_lines (run_text flt [100, 500, 400, 1023, 0] s)) =
       [''SAFE - No Alcohol'', ''ALCOHOL DETECTED'', ''SAFE - No Alcohol'',
        ''ALCOHOL DETECTED'', ''SAFE - No Alcohol'']
   \<and> pin_after_each_pass flt [100, 500, 400, 1023, 0] s =
       [Some HIGH, Some LOW, Some HIGH, Some LOW, Some HIGH]
   \<and> pin_out (run_loop flt [100, 500, 400, 1023, 0] s) RELAY_PIN = Some HIGH
   \<and> run_loop flt [100, 500, 400, 1023, 0] s =
       run_decided [(SAFE, 100), (ALARM, 500), (SAFE, 400), (ALARM, 1023), (SAFE, 0)] s
   \<and> pass_decided ALARM r s' \<noteq> pass_decided SAFE r s'"
proof -
  have decisions: "map decide [100, 500, 400, 1023, 0] = [SAFE, ALARM, SAFE, ALARM, SAFE]"
    by (simp add: decide_def)
  have levels: "levels_written RELAY_PIN (run_events flt [100, 500, 400, 1023, 0] s) =
       [HIGH, LOW, HIGH, LOW, HIGH]"
    by (simp add: run_events_eq pass_events_eq decide_def actuate_level_def)
  have classes: "filter is_classification
       (serial_lines (run_text flt [100, 500, 400, 1023, 0] s)) =
       [''SAFE - No Alcohol'', ''ALCOHOL DETECTED'', ''SAFE - No Alcohol'',
        ''ALCOHOL DETECTED'', ''SAFE - No Alcohol'']"
    by (simp add: scenario_lines is_classification_def)
  have pins: "pin_after_each_pass flt [100, 500, 400, 1023, 0] s =
       [Some HIGH, Some LOW, Some HIGH, Some LOW, Some HIGH]"
    by (simp add: loop_result decide_def actuate_level_def)
  have final: "pin_out (run_loop flt [100, 500, 400, 1023, 0] s) RELAY_PIN = Some HIGH"
    by (simp add: loop_result decide_def actuate_level_def)
  have decided: "run_loop flt [100, 500, 400, 1023, 0] s =
       run_decided [(SAFE, 100), (ALARM, 500), (SAFE, 400), (ALARM, 1023), (SAFE, 0)] s"
    by (simp add: loop_pass_decided decide_def)
  show ?thesis
    by (rule conjI [OF decisions conjI [OF levels conjI [OF scenario_lines conjI [OF classes
          conjI [OF pins conjI [OF final conjI [OF decided pass_decided_distinct]]]]]]])
qed

text \<open>
  C3. When \<open>setup\<close> has returned the relay pin is an output and holds HIGH (inactive),
  whatever the board held before. Its calls are, in order: open the serial port at 9600,
  configure the pin, write HIGH, wait 2000 ms, print the banner; none of them samples the
  sensor, and 2000 ms of waiting have been added to the clock. In a run of the sketch the
  first call of the first pass, the sample, comes after these five.
\<close>

theorem relay_inactive_after_setup:
  "pin_out (setup_board s) RELAY_PIN = Some HIGH
   \<and> pin_mode (setup_board s) RELAY_PIN = Some OUTPUT
   \<and> trace (setup_board s) =
       trace s @ [SerialBegin 9600, PinMode RELAY_PIN OUTPUT, DigitalWrite RELAY_PIN HIGH,
                  Delay 2000, SerialWrite (''Alcohol Detection System Initialized'' @ CRLF)]
   \<and> clock (setup_board s) = clock s + 2000
   \<and> pin_out (sketch flt []) RELAY_PIN = Some HIGH
   \<and> take 6 (trace (sketch flt (r # rs))) =
       [SerialBegin 9600, PinMode RELAY_PIN OUTPUT, DigitalWrite RELAY_PIN HIGH,
        Delay 2000, SerialWrite (''Alcohol Detection System Initialized'' @ CRLF),
        AnalogRead MQ3_PIN r]"
proof -
  have first: "take 6 (trace (sketch flt (r # rs))) =
       [SerialBegin 9600, PinMode RELAY_PIN OUTPUT, DigitalWrite RELAY_PIN HIGH,
        Delay 2000, SerialWrite (''Alcohol Detection System Initialized'' @ CRLF),
        AnalogRead MQ3_PIN r]"
  proof -
    have "trace (sketch flt (r # rs)) =
        trace (setup_board power_on) @ concat (map (\<lambda>r. pass_events flt r power_on) (r # rs))"
      unfolding sketch_def by (rule trace_run_loop)
    then show ?thesis
      by (simp add: setup_result pass_events_eq power_on_def)
  qed
  have idle: "pin_out (sketch flt []) RELAY_PIN = Some HIGH"
    by (simp add: sketch_def setup_result)
  from first idle show ?thesis
    by (simp add: setup_result)
qed

text \<open>
  C4. A pass has no memory. Two passes that read the same value \<open>r\<close>, on boards \<open>s\<close>
  and \<open>s'\<close> that may differ in everything (earlier readings, the stored
  \<open>sensorValue\<close>, the level of the pin), and under any two evaluations of the voltage,
  leave the same level on the relay pin, make the same calls and print the same text;
  the stored \<open>sensorValue\<close> is overwritten by the reading.
\<close>

theorem pass_depends_on_reading_only:
  "pin_out (loop flt r s) RELAY_PIN = pin_out (loop flt' r s') RELAY_PIN
   \<and> pass_events flt r s = pass_events flt' r s'
   \<and> pass_text flt r s = pass_text flt' r s'
   \<and> serial_lines (pass_text flt r s) = serial_lines (pass_text flt' r s')
   \<and> sensorValue (loop flt r s) = r
   \<and> pin_out (loop flt r (run_loop flt rs s)) RELAY_PIN = pin_out (loop flt r s') RELAY_PIN"
  by (simp add: loop_result pass_events_eq pass_text_eq)

text \<open>
  C5, as the code has it. The calls of a pass are, in this order: sample the reading, write
  the label and the reading to the serial port, write the decided level to the relay pin,
  write the classification to the serial port, wait 1000 ms. Half of the report, the
  reading line, therefore comes before the actuation; the level written and the
  classification are those decided from the sampled reading.
\<close>

theorem pass_call_order:
  "pass_events flt r s =
     [AnalogRead MQ3_PIN r, SerialWrite ''MQ3 Value: '', SerialWrite (print_int r @ CRLF),
      DigitalWrite RELAY_PIN (actuate_level (decide r)),
      SerialWrite (classification (decide r) @ CRLF), Delay 1000]
   \<and> stages (pass_events flt r s) = [Sample, Report, Actuate, Report, Wait]
   \<and> clock (loop flt r s) = clock s + 1000"
  by (simp add: pass_events_eq stages_def loop_result)

text \<open>
  C5, as the specification words it: sample, decide, actuate, report, wait. Deciding makes
  no call, so the stages of the calls would be sample, actuate, report, wait. The pass on
  the reading 100 from the board at power-on does not have these stages.
\<close>

theorem pass_call_order_counterexample:
  "stages (pass_events voltage_exact 100 power_on) \<noteq> [Sample, Actuate, Report, Wait]"
  by (simp add: pass_events_eq stages_def)

text \<open>
  C6. The text that one pass sends to the serial port consists of exactly two lines. The
  first is the label ``MQ3 Value: '' followed by the reading in decimal, which reads back
  as the reading; the second is exactly ``ALCOHOL DETECTED'' when the reading is above
  400 and exactly ``SAFE - No Alcohol'' otherwise.
\<close>

theorem pass_prints_two_lines:
  "serial_lines (pass_text flt r s) =
     [''MQ3 Value: '' @ print_int r,
      if 400 < r then ''ALCOHOL DETECTED'' else ''SAFE - No Alcohol'']
   \<and> length (serial_lines (pass_text flt r s)) = 2
   \<and> read_int (print_int r) = r
   \<and> serial_out (loop flt r s) = serial_out s @ pass_text flt r s"
proof -
  have two: "serial_lines (pass_text flt r s) =
     [''MQ3 Value: '' @ print_int r,
      if 400 < r then ''ALCOHOL DETECTED'' else ''SAFE - No Alcohol'']"
    by (simp add: serial_lines_pass decide_def classification_def)
  have count: "length (serial_lines (pass_text flt r s)) = 2"
    by (simp add: serial_lines_pass)
  have appended: "serial_out (loop flt r s) = serial_out s @ pass_text flt r s"
    by (simp add: loop_result pass_text_eq)
  show ?thesis
    by (rule conjI [OF two conjI [OF count conjI [OF read_int_print_int appended]]])
qed

text \<open>
  C7. Actuating twice with the same decision, ALARM or SAFE, changes nothing that the
  first actuation had not already set: the board after the second call is the board after
  the first one, apart from the record that a second call was made, and the pin levels
  are the same. The same holds for the write of either level to the relay pin, which is
  what \<open>loop\<close> calls, and for the relay pin across two passes on the same reading.
\<close>

theorem actuation_idempotent:
  "actuate d (actuate d s) =
     (actuate d s)\<lparr>trace := trace (actuate d s) @ [DigitalWrite RELAY_PIN (actuate_level d)]\<rparr>
   \<and> pin_out (actuate d (actuate d s)) = pin_out (actuate d s)
   \<and> digitalWrite RELAY_PIN l (digitalWrite RELAY_PIN l s) =
       (digitalWrite RELAY_PIN l s)\<lparr>trace :=
          trace (digitalWrite RELAY_PIN l s) @ [DigitalWrite RELAY_PIN l]\<rparr>
   \<and> pin_out (digitalWrite RELAY_PIN l (digitalWrite RELAY_PIN l s)) =
       pin_out (digitalWrite RELAY_PIN l s)
   \<and> pin_out (loop flt r (loop flt r s)) = pin_out (loop flt r s)"
  by (simp add: actuate_def digitalWrite_def loop_result)

text \<open>
  C8. The voltage computed on line 17 has no influence: whatever value the floating-point
  expression yields, the pass equals the pass of the loop with that line deleted, as whole
  boards, hence in the level of the pin, in the calls and in the lines printed. Two
  evaluations of the expression cannot be told apart either.
\<close>

theorem voltage_has_no_influence:
  "loop flt r s = loop_without_voltage r s
   \<and> loop flt r s = loop flt' r s
   \<and> run_loop flt rs s = run_loop flt' rs s"
proof -
  have one: "\<And>f :: int \<Rightarrow> 'x. loop f r s = loop_without_voltage r s"
    by (simp add: loop_def loop_without_voltage_def)
  have many: "run_loop flt rs s = run_loop flt' rs s"
    by (induction rs arbitrary: s) (simp_all add: loop_result)
  from one many show ?thesis
    by (simp add: loop_result)
qed

text \<open>
  C9. In every pass the message and the relay agree. The line ``ALCOHOL DETECTED'' is among
  the lines printed by the pass exactly when LOW is among the levels the pass writes to
  the relay pin, and exactly when the pin holds LOW afterwards; the line
  ``SAFE - No Alcohol'' is printed exactly when HIGH is written, and exactly when the pin
  holds HIGH afterwards. Never are both lines printed or both levels written.
\<close>

theorem message_agrees_with_relay:
  "(''ALCOHOL DETECTED'' \<in> set (serial_lines (pass_text flt r s))
      \<longleftrightarrow> LOW \<in> set (levels_written RELAY_PIN (pass_events flt r s)))
   \<and> (''SAFE - No Alcohol'' \<in> set (serial_lines (pass_text flt r s))
      \<longleftrightarrow> HIGH \<in> set (levels_written RELAY_PIN (pass_events flt r s)))
   \<and> (''ALCOHOL DETECTED'' \<in> set (serial_lines (pass_text flt r s))
      \<longleftrightarrow> pin_out (loop flt r s) RELAY_PIN = Some LOW)
   \<and> (''SAFE - No Alcohol'' \<in> set (serial_lines (pass_text flt r s))
      \<longleftrightarrow> pin_out (loop flt r s) RELAY_PIN = Some HIGH)
   \<and> (''ALCOHOL DETECTED'' \<in> set (serial_lines (pass_text flt r s))
      \<longleftrightarrow> ''SAFE - No Alcohol'' \<notin> set (serial_lines (pass_text flt r s)))"
  by (cases "decide r")
    (simp_all add: serial_lines_pass pass_events_eq loop_result classification_def
       actuate_level_def)

text \<open>
  C10. The pass handles every integer reading, inside the converter's range 0 to 1023 or
  not. A reading above 400, however large, takes the alarm branch: LOW is written, the pin
  holds LOW afterwards and ``ALCOHOL DETECTED'' is printed. A reading of 400 or less,
  negative ones included, takes the safe branch: HIGH is written, the pin holds HIGH
  afterwards and ``SAFE - No Alcohol'' is printed. Every reading is in one
  of the two cases, and each pass makes exactly one write to the relay pin and prints
  exactly one classification line.
\<close>

theorem every_reading_takes_one_branch:
  "(400 < r \<longrightarrow>
      pass_events flt r s =
        [AnalogRead MQ3_PIN r, SerialWrite ''MQ3 Value: '', SerialWrite (print_int r @ CRLF),
         DigitalWrite RELAY_PIN LOW, SerialWrite (''ALCOHOL DETECTED'' @ CRLF), Delay 1000]
      \<and> decide r = ALARM
      \<and> pin_out (loop flt r s) RELAY_PIN = Some LOW)
   \<and> (r \<le> 400 \<longrightarrow>
      pass_events flt r s =
        [AnalogRead MQ3_PIN r, SerialWrite ''MQ3 Value: '', SerialWrite (print_int r @ CRLF),
         DigitalWrite RELAY_PIN HIGH, SerialWrite (''SAFE - No Alcohol'' @ CRLF), Delay 1000]
      \<and> decide r = SAFE
      \<and> pin_out (loop flt r s) RELAY_PIN = Some HIGH)
   \<and> (400 < r \<or> r \<le> 400)
   \<and> length (levels_written RELAY_PIN (pass_events flt r s)) = 1
   \<and> length (filter is_classification (serial_lines (pass_text flt r s))) = 1"
proof -
  have label: "\<not> is_classification (''MQ3 Value: '' @ print_int r)"
    by (simp add: is_classification_def)
  have d_line: "is_classification (classification (decide r))"
    by (cases "decide r") (simp_all add: is_classification_def classification_def)
  have one_line: "length (filter is_classification (serial_lines (pass_text flt r s))) = 1"
    using label d_line by (simp add: serial_lines_pass)
  have one_write: "length (levels_written RELAY_PIN (pass_events flt r s)) = 1"
    by (simp add: pass_events_eq)
  have branches: "(400 < r \<longrightarrow>
      pass_events flt r s =
        [AnalogRead MQ3_PIN r, SerialWrite ''MQ3 Value: '', SerialWrite (print_int r @ CRLF),
         DigitalWrite RELAY_PIN LOW, SerialWrite (''ALCOHOL DETECTED'' @ CRLF), Delay 1000]
      \<and> decide r = ALARM
      \<and> pin_out (loop flt r s) RELAY_PIN = Some LOW)
   \<and> (r \<le> 400 \<longrightarrow>
      pass_events flt r s =
        [AnalogRead MQ3_PIN r, SerialWrite ''MQ3 Value: '', SerialWrite (print_int r @ CRLF),
         DigitalWrite RELAY_PIN HIGH, SerialWrite (''SAFE - No Alcohol'' @ CRLF), Delay 1000]
      \<and> decide r = SAFE
      \<and> pin_out (loop flt r s) RELAY_PIN = Some HIGH)
   \<and> (400 < r \<or> r \<le> 400)"
    by (auto simp add: pass_events_eq loop_result decide_def actuate_level_def
          classification_def)
  from branches one_write one_line show ?thesis
    by blast
qed

theorem every_reading_takes_one_branch_witness:
  "(400 :: int) < 70000
   \<and> pass_events voltage_exact 70000 power_on =
        [AnalogRead MQ3_PIN 70000, SerialWrite ''MQ3 Value: '', SerialWrite (''70000'' @ CRLF),
         DigitalWrite RELAY_PIN LOW, SerialWrite (''ALCOHOL DETECTED'' @ CRLF), Delay 1000]
   \<and> (- 3 :: int) \<le> 400
   \<and> pass_events voltage_exact (- 3) power_on =
        [AnalogRead MQ3_PIN (- 3), SerialWrite ''MQ3 Value: '', SerialWrite (''-3'' @ CRLF),
         DigitalWrite RELAY_PIN HIGH, SerialWrite (''SAFE - No Alcohol'' @ CRLF), Delay 1000]"
proof -
  have h1: "(400 :: int) < 70000" and h2: "(- 3 :: int) \<le> 400"
    by simp_all
  have p1: "print_int 70000 = ''70000''" and p2: "print_int (- 3) = ''-3''"
    by (simp_all add: print_int_def printNumber.simps digit_char_def)
  show ?thesis
    using h1 h2
      every_reading_takes_one_branch [where r = 70000 and flt = voltage_exact and s = power_on]
      every_reading_takes_one_branch [where r = "- 3" and flt = voltage_exact and s = power_on]
    unfolding p1 p2 by blast
qed

end
